theory Spec2Isabelle
  imports Main
begin

section \<open>The process in which the macros of macros.hpp run\<close>

text \<open>
  \<^verbatim>\<open>EXPECTED_VOID\<close> (macros.hpp, lines 3 to 10) is a statement expression that evaluates
  its argument, prints and calls \<^verbatim>\<open>std::exit\<close>. The statements it is made of act on the
  running process, so the process is a record and a statement is a function from the
  process to an outcome and the process it leaves behind.

  What the process holds:
  \<^item> \<open>memory\<close>: the variables of the program, of any type \<open>'m\<close>;
  \<^item> \<open>stdout\<close>: the characters written to the standard output stream so far;
  \<^item> \<open>exit_cleanups\<close>: the functions registered with \<^verbatim>\<open>std::atexit\<close> and the destructors
    of the constructed objects of static storage duration, the most recently registered
    first, each known by a number;
  \<^item> \<open>automatic_objects\<close>: the objects of automatic storage duration alive on the stack,
    the innermost first;
  \<^item> \<open>cleanups_run\<close>: the exit-time cleanups that have been invoked, in the order of
    their invocation. What a cleanup itself does is code of the program that registered
    it; the model records that it was invoked and when.
\<close>

datatype cleanup = Atexit_function nat | Static_destructor nat

record 'm process =
  memory :: 'm
  stdout :: string
  exit_cleanups :: "cleanup list"
  automatic_objects :: "nat list"
  cleanups_run :: "cleanup list"

text \<open>
  A statement either returns a value to the statement after it, or ends the process with
  an exit status, after which nothing else of the program runs.
\<close>

datatype 'a outcome = Returns 'a | Exits int

type_synonym ('m, 'a) stmt = "'m process \<Rightarrow> 'a outcome \<times> 'm process"

text \<open>The outcome of a process that has ended with a status other than 0.\<close>

fun exits_nonzero :: "'a outcome \<Rightarrow> bool" where
  "exits_nonzero (Returns a) = False"
| "exits_nonzero (Exits status) = (status \<noteq> 0)"

definition skip :: "('m, unit) stmt" where
  "skip s = (Returns (), s)"

text \<open>Sequencing, \<^verbatim>\<open>c; k\<close>: the rest \<open>k\<close> runs only if \<open>c\<close> returns.\<close>

definition and_then :: "('m, 'a) stmt \<Rightarrow> ('a \<Rightarrow> ('m, 'b) stmt) \<Rightarrow> ('m, 'b) stmt" where
  "and_then c k s =
     (case c s of
        (Returns a, s') \<Rightarrow> k a s'
      | (Exits status, s') \<Rightarrow> (Exits status, s'))"

subsection \<open>The standard library calls of the macro\<close>

text \<open>
  \<^verbatim>\<open>std::expected<void, E>\<close> holds either nothing (success) or an error of type \<open>E\<close>.
  \<^verbatim>\<open>operator bool\<close> is \<open>has_value\<close>; \<^verbatim>\<open>error()\<close> may only be called when there is no
  value, which is the one place the macro calls it.
\<close>

datatype 'e expected_void = Has_value | Unexpected 'e

fun has_value :: "'e expected_void \<Rightarrow> bool" where
  "has_value Has_value = True"
| "has_value (Unexpected e) = False"

fun error :: "'e expected_void \<Rightarrow> 'e" where
  "error (Unexpected e) = e"

text \<open>
  \<^verbatim>\<open>std::format\<close> for the format strings with plain text and the replacement field
  \<^verbatim>\<open>{}\<close>, filled by a string argument: the first \<^verbatim>\<open>{}\<close> is replaced by the argument.
  (Escaped braces and format specifications are not needed for the macro's \<^verbatim>\<open>"{}"\<close>.)
\<close>

fun format :: "string \<Rightarrow> string \<Rightarrow> string" where
  "format [] arg = []"
| "format (c # rest) arg =
     (if c = CHR ''{'' \<and> take 1 rest = ''}'' then arg @ drop 1 rest
      else c # format rest arg)"

text \<open>
  \<^verbatim>\<open>std::println(fmt, arg)\<close> writes the formatted text and a newline to the standard output
  stream. (A write that fails would raise \<^verbatim>\<open>std::system_error\<close>; the stream is taken to
  accept the write.)
\<close>

definition println :: "string \<Rightarrow> string \<Rightarrow> ('m, unit) stmt" where
  "println fmt arg s = (Returns (), s\<lparr>stdout := stdout s @ format fmt arg @ [CHR 0x0A]\<rparr>)"

text \<open>
  \<^verbatim>\<open>std::exit(status)\<close>, as the C++ standard describes it (support.start.term): the
  objects of static storage duration are destroyed and the functions registered with
  \<^verbatim>\<open>std::atexit\<close> are called, in the reverse order of their registration; objects of
  automatic storage duration are not destroyed; the C streams are flushed, and control
  goes back to the host environment with the status. It never returns to its caller.
\<close>

definition std_exit :: "int \<Rightarrow> ('m, 'a) stmt" where
  "std_exit status s =
     (Exits status,
      s\<lparr>cleanups_run := cleanups_run s @ exit_cleanups s, exit_cleanups := []\<rparr>)"

subsection \<open>EXPECTED_VOID\<close>

text \<open>
  \<^verbatim>\<open>
  #define EXPECTED_VOID(expr)
    ({
      std::expected<void, std::string> expected = (expr);
      if (!expected) {
        std::println("{}", expected.error());
        std::exit(1);
      }
    })
  \<close>
  The argument \<open>expr\<close> is an expression of the program: a statement of the model that
  returns a \<^verbatim>\<open>std::expected<void, std::string>\<close> and may change the process on the way.
\<close>

definition EXPECTED_VOID :: "('m, string expected_void) stmt \<Rightarrow> ('m, unit) stmt" where
  "EXPECTED_VOID expr =
     and_then expr (\<lambda>expected.
       if \<not> has_value expected then
         and_then (println ''{}'' (error expected)) (\<lambda>_. std_exit 1)
       else skip)"

text \<open>
  Operations to run the macro on: one that fails with a message, one that succeeds, and
  one with a counter side effect on a memory that is the counter, returning whatever
  result it is given. \<open>next_statement\<close> stands for the code after the macro: it leaves a
  mark on the standard output.
\<close>

definition failing :: "string \<Rightarrow> ('m, string expected_void) stmt" where
  "failing msg s = (Returns (Unexpected msg), s)"

definition succeeding :: "('m, string expected_void) stmt" where
  "succeeding s = (Returns Has_value, s)"

definition counting :: "string expected_void \<Rightarrow> (nat, string expected_void) stmt" where
  "counting result s = (Returns result, s\<lparr>memory := memory s + 1\<rparr>)"

definition next_statement :: "unit \<Rightarrow> ('m, unit) stmt" where
  "next_statement u s = (Returns (), s\<lparr>stdout := stdout s @ ''next''\<rparr>)"

text \<open>
  Two processes to start from: \<open>fresh\<close> has nothing registered and nothing on the stack;
  \<open>registered\<close> has constructed the static object 0, then registered function 1 with
  \<^verbatim>\<open>std::atexit\<close>, and has the automatic objects 2 and 3 alive.
\<close>

definition fresh :: "nat process" where
  "fresh = \<lparr>memory = 0, stdout = [], exit_cleanups = [], automatic_objects = [],
            cleanups_run = []\<rparr>"

definition registered :: "nat process" where
  "registered = \<lparr>memory = 0, stdout = [],
                 exit_cleanups = [Atexit_function 1, Static_destructor 0],
                 automatic_objects = [3, 2], cleanups_run = []\<rparr>"

section \<open>The conditional definitions of macros.hpp\<close>

text \<open>
  \<^verbatim>\<open>
  #ifndef NOEXCEPT_ENABLED
  #define NOEXCEPT noexcept
  #else
  #define NOEXCEPT
  #endif

  #ifndef NDEBUG
  #define NDEBUG 1
  #endif
  \<close>
  The preprocessor keeps the object-like macros defined so far, each with its replacement
  list of tokens; the surrounding build provides the ones defined before the header is
  read (with \<^verbatim>\<open>-D\<close>, or by an earlier \<^verbatim>\<open>#define\<close>). The table is an association list
  in which the most recent definition of a name comes first, read with \<open>map_of\<close>.
  A directive is a \<^verbatim>\<open>#define\<close> or an \<^verbatim>\<open>#ifndef\<close> with its two groups (the second
  one empty when there is no \<^verbatim>\<open>#else\<close>).
\<close>

type_synonym token = string

type_synonym macro_table = "(string \<times> token list) list"

datatype directive =
    Define string "token list"
  | Ifndef string "directive list" "directive list"

fun run_directive :: "directive \<Rightarrow> macro_table \<Rightarrow> macro_table"
  and run_directives :: "directive list \<Rightarrow> macro_table \<Rightarrow> macro_table" where
  "run_directive (Define name body) macros = (name, body) # macros"
| "run_directive (Ifndef name then_group else_group) macros =
     (if map_of macros name = None then run_directives then_group macros
      else run_directives else_group macros)"
| "run_directives [] macros = macros"
| "run_directives (d # ds) macros = run_directives ds (run_directive d macros)"

definition macros_hpp :: "directive list" where
  "macros_hpp =
     [Ifndef ''NOEXCEPT_ENABLED''
        [Define ''NOEXCEPT'' [''noexcept'']]
        [Define ''NOEXCEPT'' []],
      Ifndef ''NDEBUG''
        [Define ''NDEBUG'' [''1'']]
        []]"

text \<open>
  What \<^verbatim>\<open>NDEBUG\<close> means is fixed by the standard library, not by this header: where
  \<^verbatim>\<open><cassert>\<close> is included with \<^verbatim>\<open>NDEBUG\<close> defined as a macro name, whatever its
  replacement list, \<^verbatim>\<open>assert(e)\<close> expands to \<^verbatim>\<open>((void)0)\<close> and checks nothing; the
  assertions are checked only where \<^verbatim>\<open>NDEBUG\<close> is not defined.
\<close>

definition assertions_checked :: "macro_table \<Rightarrow> bool" where
  "assertions_checked macros = (map_of macros ''NDEBUG'' = None)"

section \<open>The aliases of primitive_types.hpp\<close>

text \<open>
  The header is a list of alias declarations \<^verbatim>\<open>using name = type;\<close>, each binding a name
  to a type of \<^verbatim>\<open><cstdint>\<close>, of \<^verbatim>\<open><cstddef>\<close> or of the language.
\<close>

datatype cxx_type =
    Std_uint8_t | Std_uint16_t | Std_uint32_t | Std_uint64_t
  | Std_int8_t | Std_int16_t | Std_int32_t | Std_int64_t
  | Std_size_t | Std_ptrdiff_t
  | Std_uint_fast32_t | Std_int_fast32_t
  | Float | Double | Long_double

definition primitive_types :: "(string \<times> cxx_type) list" where
  "primitive_types =
     [(''u8'', Std_uint8_t), (''u16'', Std_uint16_t),
      (''u32'', Std_uint32_t), (''u64'', Std_uint64_t),
      (''i8'', Std_int8_t), (''i16'', Std_int16_t),
      (''i32'', Std_int32_t), (''i64'', Std_int64_t),
      (''usize'', Std_size_t), (''ssize'', Std_ptrdiff_t),
      (''ufast32'', Std_uint_fast32_t), (''ifast32'', Std_int_fast32_t),
      (''f32'', Float), (''f64'', Double), (''f80'', Long_double)]"

text \<open>
  The types themselves are declared by the standard library of the platform. The C++
  standard fixes the exact-width types: \<^verbatim>\<open>std::uintN_t\<close> is an unsigned integer type of
  exactly \<open>N\<close> bits and \<^verbatim>\<open>std::intN_t\<close> a signed (two's complement) one of exactly \<open>N\<close>
  bits, both without padding. It leaves the widths of \<^verbatim>\<open>std::size_t\<close>,
  \<^verbatim>\<open>std::ptrdiff_t\<close> and the fast types to the implementation, within lower limits (16
  bits for \<^verbatim>\<open>std::size_t\<close>, 17 for \<^verbatim>\<open>std::ptrdiff_t\<close>, 32 for the fast types): these
  are parameters, the fields of \<open>platform\<close>. The floating-point types are not integer
  types and have no entry.
\<close>

record platform =
  size_t_bits :: nat
  ptrdiff_t_bits :: nat
  uint_fast32_t_bits :: nat
  int_fast32_t_bits :: nat

datatype signedness = Unsigned | Signed

fun integer_signedness :: "cxx_type \<Rightarrow> signedness option" where
  "integer_signedness Std_uint8_t = Some Unsigned"
| "integer_signedness Std_uint16_t = Some Unsigned"
| "integer_signedness Std_uint32_t = Some Unsigned"
| "integer_signedness Std_uint64_t = Some Unsigned"
| "integer_signedness Std_int8_t = Some Signed"
| "integer_signedness Std_int16_t = Some Signed"
| "integer_signedness Std_int32_t = Some Signed"
| "integer_signedness Std_int64_t = Some Signed"
| "integer_signedness Std_size_t = Some Unsigned"
| "integer_signedness Std_ptrdiff_t = Some Signed"
| "integer_signedness Std_uint_fast32_t = Some Unsigned"
| "integer_signedness Std_int_fast32_t = Some Signed"
| "integer_signedness Float = None"
| "integer_signedness Double = None"
| "integer_signedness Long_double = None"

fun integer_bits :: "platform \<Rightarrow> cxx_type \<Rightarrow> nat option" where
  "integer_bits p Std_uint8_t = Some 8"
| "integer_bits p Std_uint16_t = Some 16"
| "integer_bits p Std_uint32_t = Some 32"
| "integer_bits p Std_uint64_t = Some 64"
| "integer_bits p Std_int8_t = Some 8"
| "integer_bits p Std_int16_t = Some 16"
| "integer_bits p Std_int32_t = Some 32"
| "integer_bits p Std_int64_t = Some 64"
| "integer_bits p Std_size_t = Some (size_t_bits p)"
| "integer_bits p Std_ptrdiff_t = Some (ptrdiff_t_bits p)"
| "integer_bits p Std_uint_fast32_t = Some (uint_fast32_t_bits p)"
| "integer_bits p Std_int_fast32_t = Some (int_fast32_t_bits p)"
| "integer_bits p Float = None"
| "integer_bits p Double = None"
| "integer_bits p Long_double = None"

text \<open>
  A byte has \<^verbatim>\<open>CHAR_BIT\<close> bits. A platform on which the header compiles has
  \<^verbatim>\<open>std::uint8_t\<close>, a type of 8 bits without padding, and no object is smaller than a
  byte of at least 8 bits: there \<^verbatim>\<open>CHAR_BIT\<close> is 8.
\<close>

definition CHAR_BIT :: nat where
  "CHAR_BIT = 8"

text \<open>What an alias of the header stands for: its signedness, its bits, its bytes.\<close>

definition alias_signedness :: "string \<Rightarrow> signedness option" where
  "alias_signedness name =
     (case map_of primitive_types name of
        None \<Rightarrow> None
      | Some t \<Rightarrow> integer_signedness t)"

definition alias_bits :: "platform \<Rightarrow> string \<Rightarrow> nat option" where
  "alias_bits p name =
     (case map_of primitive_types name of
        None \<Rightarrow> None
      | Some t \<Rightarrow> integer_bits p t)"

definition alias_sizeof :: "platform \<Rightarrow> string \<Rightarrow> nat option" where
  "alias_sizeof p name =
     (case alias_bits p name of
        None \<Rightarrow> None
      | Some bits \<Rightarrow> Some (bits div CHAR_BIT))"

text \<open>
  Two platforms: the LP64 data model of the 64-bit Unix systems, and a 16-bit target
  whose objects are at most 65535 bytes (a 16-bit \<^verbatim>\<open>std::size_t\<close>), where pointer
  differences up to 65535 in both directions need more than 16 bits.
\<close>

definition lp64 :: platform where
  "lp64 = \<lparr>size_t_bits = 64, ptrdiff_t_bits = 64,
           uint_fast32_t_bits = 64, int_fast32_t_bits = 64\<rparr>"

definition small16 :: platform where
  "small16 = \<lparr>size_t_bits = 16, ptrdiff_t_bits = 32,
              uint_fast32_t_bits = 32, int_fast32_t_bits = 32\<rparr>"

section \<open>What EXPECTED_VOID does\<close>

text \<open>The three ways the macro can go, by what its argument does.\<close>

lemma EXPECTED_VOID_Unexpected:
  "expr s = (Returns (Unexpected m), s') \<Longrightarrow>
   EXPECTED_VOID expr s =
     (Exits 1, s'\<lparr>stdout := stdout s' @ m @ [CHR 0x0A],
                  cleanups_run := cleanups_run s' @ exit_cleanups s',
                  exit_cleanups := []\<rparr>)"
  by (simp add: EXPECTED_VOID_def and_then_def println_def std_exit_def)

lemma EXPECTED_VOID_Has_value:
  "expr s = (Returns Has_value, s') \<Longrightarrow> EXPECTED_VOID expr s = (Returns (), s')"
  by (simp add: EXPECTED_VOID_def and_then_def skip_def)

lemma EXPECTED_VOID_Exits:
  "expr s = (Exits status, s') \<Longrightarrow> EXPECTED_VOID expr s = (Exits status, s')"
  by (simp add: EXPECTED_VOID_def and_then_def)

text \<open>
  C1. When the operation fails with the message \<open>m\<close>, leaving the process \<open>s'\<close>, the macro
  ends the process with a status other than 0, the standard output is the one the
  operation left followed by \<open>m\<close> and a newline, and whatever statement \<open>k\<close> follows the
  macro does not run: the program with \<open>k\<close> after the macro ends as the macro alone does.
\<close>

theorem EXPECTED_VOID_failure:
  assumes "expr s = (Returns (Unexpected m), s')"
  shows "exits_nonzero (fst (EXPECTED_VOID expr s))
       \<and> stdout (snd (EXPECTED_VOID expr s)) = stdout s' @ m @ [CHR 0x0A]
       \<and> and_then (EXPECTED_VOID expr) k s = EXPECTED_VOID expr s"
  using assms by (simp add: EXPECTED_VOID_Unexpected and_then_def)

theorem EXPECTED_VOID_failure_witness:
  "failing ''disk full'' fresh = (Returns (Unexpected ''disk full''), fresh)
   \<and> exits_nonzero (fst (EXPECTED_VOID (failing ''disk full'') fresh))
   \<and> stdout (snd (EXPECTED_VOID (failing ''disk full'') fresh)) = ''disk full'' @ [CHR 0x0A]
   \<and> and_then (EXPECTED_VOID (failing ''disk full'')) next_statement fresh
       = EXPECTED_VOID (failing ''disk full'') fresh"
  using EXPECTED_VOID_failure
    [of "failing ''disk full''" fresh "''disk full''" fresh next_statement]
  by (simp add: failing_def fresh_def)

text \<open>
  C2. The macro evaluates its argument once, whatever the result. For every argument, the
  memory the macro leaves is the memory one evaluation of the argument leaves (also when
  the process ends); and with the counting operation as argument the counter goes up by
  exactly 1, whether the operation reports success or failure.
\<close>

theorem EXPECTED_VOID_evaluates_once:
  "memory (snd (EXPECTED_VOID expr s)) = memory (snd (expr s))
   \<and> memory (snd (EXPECTED_VOID (counting result) c)) = memory c + 1"
proof
  show "memory (snd (EXPECTED_VOID expr s)) = memory (snd (expr s))"
  proof (cases "expr s")
    case (Pair r s')
    show ?thesis
    proof (cases r)
      case (Returns expected)
      with Pair show ?thesis
        by (cases expected) (simp_all add: EXPECTED_VOID_Unexpected EXPECTED_VOID_Has_value)
    next
      case (Exits status)
      with Pair show ?thesis by (simp add: EXPECTED_VOID_Exits)
    qed
  qed
next
  have "counting result c = (Returns result, c\<lparr>memory := memory c + 1\<rparr>)"
    by (simp add: counting_def)
  then show "memory (snd (EXPECTED_VOID (counting result) c)) = memory c + 1"
    by (cases result) (simp_all add: EXPECTED_VOID_Unexpected EXPECTED_VOID_Has_value)
qed

text \<open>
  C7. When the operation succeeds, leaving the process \<open>s'\<close>, the macro returns and the
  process is \<open>s'\<close>, nothing more: the standard output is the one the operation left, and
  the statement \<open>k\<close> after the macro runs next, from \<open>s'\<close>.
\<close>

theorem EXPECTED_VOID_success:
  assumes "expr s = (Returns Has_value, s')"
  shows "EXPECTED_VOID expr s = (Returns (), s')
       \<and> stdout (snd (EXPECTED_VOID expr s)) = stdout s'
       \<and> and_then (EXPECTED_VOID expr) k s = k () s'"
  using assms by (simp add: EXPECTED_VOID_Has_value and_then_def)

theorem EXPECTED_VOID_success_witness:
  "succeeding fresh = (Returns Has_value, fresh)
   \<and> EXPECTED_VOID succeeding fresh = (Returns (), fresh)
   \<and> stdout (snd (EXPECTED_VOID succeeding fresh)) = []
   \<and> stdout (snd (and_then (EXPECTED_VOID succeeding) next_statement fresh)) = ''next''"
  using EXPECTED_VOID_success [of succeeding fresh fresh next_statement]
  by (simp add: succeeding_def fresh_def next_statement_def)

text \<open>
  C10. When the operation fails, the status the macro ends the process with is 1, the
  same for every operation, message and process.
\<close>

theorem EXPECTED_VOID_exit_status:
  assumes "expr s = (Returns (Unexpected m), s')"
  shows "fst (EXPECTED_VOID expr s) = Exits 1"
  using assms by (simp add: EXPECTED_VOID_Unexpected)

theorem EXPECTED_VOID_exit_status_witness:
  "counting (Unexpected ''no device'') fresh
     = (Returns (Unexpected ''no device''), fresh\<lparr>memory := 1\<rparr>)
   \<and> fst (EXPECTED_VOID (counting (Unexpected ''no device'')) fresh) = Exits 1"
  using EXPECTED_VOID_exit_status
    [of "counting (Unexpected ''no device'')" fresh "''no device''" "fresh\<lparr>memory := 1\<rparr>"]
  by (simp add: counting_def fresh_def)

text \<open>
  C4, as stated: the macro ends the process without invoking any cleanup. It does not
  hold: from the process \<open>registered\<close>, where no cleanup has run yet, the failing
  operation makes the macro call \<^verbatim>\<open>std::exit\<close>, which runs the registered function 1 and
  then the destructor of the static object 0.
\<close>

theorem EXPECTED_VOID_runs_cleanups_counterexample:
  "failing ''disk full'' registered = (Returns (Unexpected ''disk full''), registered)
   \<and> cleanups_run registered = []
   \<and> cleanups_run (snd (EXPECTED_VOID (failing ''disk full'') registered))
       = [Atexit_function 1, Static_destructor 0]"
  by (simp add: EXPECTED_VOID_def and_then_def println_def std_exit_def failing_def
      registered_def)

text \<open>
  C4, amended: when the operation fails, the macro ends the process through
  \<^verbatim>\<open>std::exit\<close>. The stack is not unwound: the automatic objects alive after the operation
  are left as they are. The cleanups registered for the exit (the \<^verbatim>\<open>std::atexit\<close>
  functions and the destructors of the static objects) all run, the most recently
  registered first.
\<close>

theorem EXPECTED_VOID_exit_cleanups:
  assumes "expr s = (Returns (Unexpected m), s')"
  shows "automatic_objects (snd (EXPECTED_VOID expr s)) = automatic_objects s'
       \<and> cleanups_run (snd (EXPECTED_VOID expr s)) = cleanups_run s' @ exit_cleanups s'"
  using assms by (simp add: EXPECTED_VOID_Unexpected)

theorem EXPECTED_VOID_exit_cleanups_witness:
  "failing ''out of memory'' registered = (Returns (Unexpected ''out of memory''), registered)
   \<and> automatic_objects (snd (EXPECTED_VOID (failing ''out of memory'') registered)) = [3, 2]
   \<and> cleanups_run (snd (EXPECTED_VOID (failing ''out of memory'') registered))
       = [Atexit_function 1, Static_destructor 0]"
  using EXPECTED_VOID_exit_cleanups
    [of "failing ''out of memory''" registered "''out of memory''" registered]
  by (simp add: failing_def registered_def)

section \<open>What the conditional definitions leave defined\<close>

text \<open>
  The macro table after the header: \<^verbatim>\<open>NOEXCEPT\<close> is put in front of what the build
  defined, and \<^verbatim>\<open>NDEBUG\<close> in front of that when the build did not define it.
\<close>

lemma run_macros_hpp:
  "run_directives macros_hpp macros =
     (if map_of macros ''NDEBUG'' = None then [(''NDEBUG'', [''1''])] else [])
     @ (''NOEXCEPT'', if map_of macros ''NOEXCEPT_ENABLED'' = None then [''noexcept''] else [])
     # macros"
  by (simp add: macros_hpp_def)

text \<open>
  C3, as stated: where the build did not define the flag, the header sets it to the value
  that means the assertions are on. It does not hold: the flag is \<^verbatim>\<open>NDEBUG\<close>, and after
  the header has been read with no macro defined before it, \<^verbatim>\<open>NDEBUG\<close> is defined, so
  the assertions are not checked.
\<close>

theorem NDEBUG_default_counterexample:
  "map_of [] ''NDEBUG'' = (None :: token list option)
   \<and> \<not> assertions_checked (run_directives macros_hpp [])"
  by (simp add: run_macros_hpp assertions_checked_def)

text \<open>
  C3, amended: where the build did not define \<^verbatim>\<open>NDEBUG\<close>, the header defines it, with
  the replacement list \<^verbatim>\<open>1\<close>; with \<^verbatim>\<open>NDEBUG\<close> defined the assertions are off, not
  on.
\<close>

theorem NDEBUG_default:
  assumes "map_of macros ''NDEBUG'' = None"
  shows "map_of (run_directives macros_hpp macros) ''NDEBUG'' = Some [''1'']
       \<and> \<not> assertions_checked (run_directives macros_hpp macros)"
  using assms by (simp add: run_macros_hpp assertions_checked_def)

theorem NDEBUG_default_witness:
  "map_of [(''NOEXCEPT_ENABLED'', [])] ''NDEBUG'' = None
   \<and> map_of (run_directives macros_hpp [(''NOEXCEPT_ENABLED'', [])]) ''NDEBUG'' = Some [''1'']
   \<and> \<not> assertions_checked (run_directives macros_hpp [(''NOEXCEPT_ENABLED'', [])])"
  using NDEBUG_default [of "[(''NOEXCEPT_ENABLED'', [])]"] by simp

text \<open>
  C5. After the header, \<^verbatim>\<open>NOEXCEPT\<close> is defined in both cases: with the replacement list
  \<^verbatim>\<open>noexcept\<close> where the build did not define the toggle \<^verbatim>\<open>NOEXCEPT_ENABLED\<close>, and
  with the empty replacement list where the build defined it (with any replacement list).
\<close>

theorem NOEXCEPT_replacement:
  "(map_of macros ''NOEXCEPT_ENABLED'' = None \<longrightarrow>
      map_of (run_directives macros_hpp macros) ''NOEXCEPT'' = Some [''noexcept''])
   \<and> (map_of macros ''NOEXCEPT_ENABLED'' \<noteq> None \<longrightarrow>
      map_of (run_directives macros_hpp macros) ''NOEXCEPT'' = Some [])"
  by (simp add: run_macros_hpp)

theorem NOEXCEPT_replacement_witness:
  "map_of [] ''NOEXCEPT_ENABLED'' = (None :: token list option)
   \<and> map_of (run_directives macros_hpp []) ''NOEXCEPT'' = Some [''noexcept'']
   \<and> map_of [(''NOEXCEPT_ENABLED'', [''1''])] ''NOEXCEPT_ENABLED'' \<noteq> None
   \<and> map_of (run_directives macros_hpp [(''NOEXCEPT_ENABLED'', [''1''])]) ''NOEXCEPT'' = Some []"
  using NOEXCEPT_replacement [of "[]"]
    NOEXCEPT_replacement [of "[(''NOEXCEPT_ENABLED'', [''1''])]"]
  by simp

text \<open>
  C6. Where the build defined \<^verbatim>\<open>NDEBUG\<close> with the replacement list \<open>v\<close>, it is still
  defined with \<open>v\<close> after the header.
\<close>

theorem NDEBUG_preserved:
  assumes "map_of macros ''NDEBUG'' = Some v"
  shows "map_of (run_directives macros_hpp macros) ''NDEBUG'' = Some v"
  using assms by (simp add: run_macros_hpp)

theorem NDEBUG_preserved_witness:
  "map_of [(''NDEBUG'', [''0''])] ''NDEBUG'' = Some [''0'']
   \<and> map_of (run_directives macros_hpp [(''NDEBUG'', [''0''])]) ''NDEBUG'' = Some [''0'']"
  using NDEBUG_preserved [of "[(''NDEBUG'', [''0''])]" "[''0'']"] by simp

section \<open>What the aliases stand for\<close>

text \<open>
  C8. On every platform, each of \<^verbatim>\<open>u8\<close>, \<^verbatim>\<open>u16\<close>, \<^verbatim>\<open>u32\<close>, \<^verbatim>\<open>u64\<close> is bound to an
  unsigned type and each of \<^verbatim>\<open>i8\<close>, \<^verbatim>\<open>i16\<close>, \<^verbatim>\<open>i32\<close>, \<^verbatim>\<open>i64\<close> to a signed type, of
  exactly as many bits as the name says; \<^verbatim>\<open>u64\<close> takes 8 bytes.
\<close>

theorem fixed_width_aliases:
  "alias_signedness ''u8'' = Some Unsigned \<and> alias_bits p ''u8'' = Some 8
   \<and> alias_signedness ''u16'' = Some Unsigned \<and> alias_bits p ''u16'' = Some 16
   \<and> alias_signedness ''u32'' = Some Unsigned \<and> alias_bits p ''u32'' = Some 32
   \<and> alias_signedness ''u64'' = Some Unsigned \<and> alias_bits p ''u64'' = Some 64
   \<and> alias_sizeof p ''u64'' = Some 8
   \<and> alias_signedness ''i8'' = Some Signed \<and> alias_bits p ''i8'' = Some 8
   \<and> alias_signedness ''i16'' = Some Signed \<and> alias_bits p ''i16'' = Some 16
   \<and> alias_signedness ''i32'' = Some Signed \<and> alias_bits p ''i32'' = Some 32
   \<and> alias_signedness ''i64'' = Some Signed \<and> alias_bits p ''i64'' = Some 64"
  by (simp add: alias_signedness_def alias_bits_def alias_sizeof_def primitive_types_def
      CHAR_BIT_def)

text \<open>
  C9, as stated: \<^verbatim>\<open>usize\<close> and \<^verbatim>\<open>ssize\<close> have the same number of bits on a given
  platform. It does not hold on the platform \<open>small16\<close>, where \<^verbatim>\<open>usize\<close> has 16 bits and
  \<^verbatim>\<open>ssize\<close> has 32.
\<close>

theorem usize_ssize_counterexample:
  "alias_bits small16 ''usize'' = Some 16 \<and> alias_bits small16 ''ssize'' = Some 32
   \<and> alias_bits small16 ''usize'' \<noteq> alias_bits small16 ''ssize''"
  by (simp add: alias_bits_def primitive_types_def small16_def)

text \<open>
  C9, amended: \<^verbatim>\<open>usize\<close> has the bits of the platform's \<^verbatim>\<open>std::size_t\<close> and \<^verbatim>\<open>ssize\<close>
  those of its \<^verbatim>\<open>std::ptrdiff_t\<close>; the two aliases have the same number of bits exactly
  on the platforms where these two types do, as on LP64.
\<close>

theorem usize_ssize_bits:
  "alias_bits p ''usize'' = Some (size_t_bits p)
   \<and> alias_bits p ''ssize'' = Some (ptrdiff_t_bits p)
   \<and> (alias_bits p ''usize'' = alias_bits p ''ssize'') = (size_t_bits p = ptrdiff_t_bits p)"
  by (simp add: alias_bits_def primitive_types_def)

theorem usize_ssize_bits_witness:
  "size_t_bits lp64 = ptrdiff_t_bits lp64
   \<and> alias_bits lp64 ''usize'' = Some 64 \<and> alias_bits lp64 ''ssize'' = Some 64"
  using usize_ssize_bits [of lp64] by (simp add: lp64_def)

end
